theory Spec2Isabelle
  imports Complex_Main "HOL-Library.Sublist"
begin

section \<open>Python strings\<close>

text \<open>
  A Python \<open>str\<close> is modelled as a \<open>string\<close> whose characters are the code points
  below 256. \<open>str.lower\<close> and \<open>str.strip\<close> are written out for that range: the upper-case
  letters are \<open>A\<close>..\<open>Z\<close> and the code points 192..222 without 215, and the white space
  characters are 9..13, 28..32, 133 and 160.
\<close>

definition py_isspace :: "char \<Rightarrow> bool" where
  "py_isspace c = ((of_char c :: nat) \<in> {9, 10, 11, 12, 13, 28, 29, 30, 31, 32, 133, 160})"

definition py_lower_char :: "char \<Rightarrow> char" where
  "py_lower_char c =
     (let n = (of_char c :: nat)
      in if (65 \<le> n \<and> n \<le> 90) \<or> (192 \<le> n \<and> n \<le> 222 \<and> n \<noteq> 215)
         then char_of (n + 32) else c)"

definition py_lower :: "string \<Rightarrow> string" where
  "py_lower s = map py_lower_char s"

definition py_lstrip :: "string \<Rightarrow> string" where
  "py_lstrip s = dropWhile py_isspace s"

definition py_rstrip :: "string \<Rightarrow> string" where
  "py_rstrip s = rev (dropWhile py_isspace (rev s))"

definition py_strip :: "string \<Rightarrow> string" where
  "py_strip s = py_rstrip (py_lstrip s)"

text \<open>\<open>s.rstrip("/")\<close> removes every trailing \<open>/\<close>.\<close>

definition py_rstrip_chars :: "char \<Rightarrow> string \<Rightarrow> string" where
  "py_rstrip_chars c s = rev (dropWhile (\<lambda>x. x = c) (rev s))"

fun py_startswith :: "string \<Rightarrow> string \<Rightarrow> bool" where
  "py_startswith s [] = True"
| "py_startswith [] (p # ps) = False"
| "py_startswith (c # cs) (p # ps) = (c = p \<and> py_startswith cs ps)"

text \<open>\<open>s.split(sep)\<close> for a separator of one character: the list is never empty.\<close>

fun py_split :: "char \<Rightarrow> string \<Rightarrow> string list" where
  "py_split sep [] = [[]]"
| "py_split sep (c # cs) =
     (if c = sep then [] # py_split sep cs
      else (case py_split sep cs of
              [] \<Rightarrow> [[c]]
            | w # ws \<Rightarrow> (c # w) # ws))"

section \<open>URL normalizer and matcher (prioritize.py)\<close>

text \<open>
  \<open>_normalize_url\<close>: the loop over the two scheme prefixes runs in the order
  \<open>http://\<close>, \<open>https://\<close>, each removed when the current string starts with it.
\<close>

definition strip_prefix :: "string \<Rightarrow> string \<Rightarrow> string" where
  "strip_prefix p u = (if py_startswith u p then drop (length p) u else u)"

definition normalize_url :: "string \<Rightarrow> string" where
  "normalize_url url =
     (if url = [] then []
      else
        let u0 = py_rstrip_chars (CHR ''/'') (py_strip (py_lower url));
            u1 = fold strip_prefix [''http://'', ''https://''] u0
        in if py_startswith u1 ''www.'' then drop 4 u1 else u1)"

text \<open>\<open>_match_url\<close>: equal normal forms, or equal first segments before a \<open>/\<close>.\<close>

definition first_segment :: "string \<Rightarrow> string" where
  "first_segment n = (case py_split (CHR ''/'') n of [] \<Rightarrow> [] | d # _ \<Rightarrow> d)"

definition match_url :: "string \<Rightarrow> string \<Rightarrow> bool" where
  "match_url llm_url result_url =
     (let n1 = normalize_url llm_url; n2 = normalize_url result_url
      in if n1 = n2 then True
         else first_segment n1 = first_segment n2)"

text \<open>
  The normalizer as section 4.1 of the specification words it: lower-case, strip white space
  and a single trailing slash, strip a leading scheme, strip a leading \<open>www.\<close> prefix.
\<close>

definition strip_one_trailing_slash :: "string \<Rightarrow> string" where
  "strip_one_trailing_slash s = (if s \<noteq> [] \<and> last s = CHR ''/'' then butlast s else s)"

definition strip_scheme :: "string \<Rightarrow> string" where
  "strip_scheme s =
     (if py_startswith s ''http://'' then drop 7 s
      else if py_startswith s ''https://'' then drop 8 s else s)"

definition strip_www :: "string \<Rightarrow> string" where
  "strip_www s = (if py_startswith s ''www.'' then drop 4 s else s)"

definition normalize_spec :: "string \<Rightarrow> string" where
  "normalize_spec u = strip_www (strip_scheme (strip_one_trailing_slash (py_strip (py_lower u))))"

text \<open>
  The same pipeline with the two steps the code performs differently: every trailing slash
  is removed, and \<open>http://\<close> is removed before \<open>https://\<close> is looked for.
\<close>

definition normalize_amended :: "string \<Rightarrow> string" where
  "normalize_amended u =
     strip_www (strip_prefix ''https://'' (strip_prefix ''http://''
       (py_rstrip_chars (CHR ''/'') (py_strip (py_lower u)))))"



section \<open>JSON values and the agent state (state.py)\<close>

text \<open>
  What \<open>json.loads\<close> returns. A float is held as the rational it denotes; \<open>JNonFinite\<close>
  stands for \<open>NaN\<close> and the two infinities, which \<open>json.loads\<close> accepts. An object is the
  list of its items, with distinct keys.
\<close>

datatype json =
    JNull
  | JBool bool
  | JInt int
  | JFloat rat
  | JNonFinite
  | JStr string
  | JList "json list"
  | JObj "(string \<times> json) list"

text \<open>\<open>d.get(key)\<close>: the value, or \<open>None\<close> (here \<open>JNull\<close>) for a missing key.\<close>

definition dict_get :: "(string \<times> json) list \<Rightarrow> string \<Rightarrow> json" where
  "dict_get d k = (case map_of d k of None \<Rightarrow> JNull | Some v \<Rightarrow> v)"

text \<open>\<open>d.get(key, default)\<close>.\<close>

definition dict_get_default :: "(string \<times> 'v) list \<Rightarrow> string \<Rightarrow> 'v \<Rightarrow> 'v" where
  "dict_get_default d k dflt = (case map_of d k of None \<Rightarrow> dflt | Some v \<Rightarrow> v)"

text \<open>Truth value of a JSON value, as \<open>not x\<close> and \<open>if x\<close> read it.\<close>

fun py_truthy :: "json \<Rightarrow> bool" where
  "py_truthy JNull = False"
| "py_truthy (JBool b) = b"
| "py_truthy (JInt n) = (n \<noteq> 0)"
| "py_truthy (JFloat q) = (q \<noteq> 0)"
| "py_truthy JNonFinite = True"
| "py_truthy (JStr s) = (s \<noteq> [])"
| "py_truthy (JList xs) = (xs \<noteq> [])"
| "py_truthy (JObj kvs) = (kvs \<noteq> [])"

text \<open>The exceptions the stages can raise.\<close>

datatype error =
    JSONDecodeError
  | AttributeError
  | TypeError
  | ValueError
  | OverflowError
  | RequestException
  | ValidationError
  | OtherError

text \<open>
  The records of state.py, with the fields that state.py declares and no others. The field
  names carry a prefix, since \<open>SearchResult\<close> and \<open>Citation\<close> share \<open>title\<close>, \<open>url\<close> and
  \<open>extended_snippet\<close>.
\<close>

record SearchResult =
  sr_title :: string
  sr_url :: string
  sr_snippet :: string
  sr_domain :: string
  sr_extended_snippet :: "string option"
  sr_snippet_highlighted :: "string list option"
  sr_position :: "int option"
  sr_date :: "string option"
  sr_cite :: "string option"
  sr_thumbnail :: "string option"
  sr_breadcrumb :: "string option"
  sr_keywords :: "string list option"
  sr_cached_link :: "string option"

record Citation =
  c_id :: int
  c_title :: string
  c_url :: string
  c_image :: "string option"
  c_extended_snippet :: "string option"

text \<open>The dictionary that \<open>format_output\<close> stores in \<open>final_payload\<close>.\<close>

record payload =
  p_question :: string
  p_overview :: string
  p_overview_image :: "string option"
  p_topics :: "(string \<times> string) list list"
  p_sources :: "(string \<times> json) list list"
  p_timestamp :: string

record AgentState =
  query :: string
  history :: "(string \<times> string) list list"
  results :: "SearchResult list option"
  answer :: "string option"
  overview :: "string option"
  overview_image :: "string option"
  topics :: "(string \<times> string) list list option"
  citations :: "Citation list option"
  final_payload :: "payload option"

text \<open>\<open>a or b or ""\<close> on two optional strings.\<close>

definition str_or :: "string option \<Rightarrow> string option \<Rightarrow> string" where
  "str_or a b =
     (case a of
        Some s \<Rightarrow> if s \<noteq> [] then s else (case b of Some t \<Rightarrow> t | None \<Rightarrow> [])
      | None \<Rightarrow> (case b of Some t \<Rightarrow> t | None \<Rightarrow> []))"

text \<open>\<open>xs or []\<close> on an optional list.\<close>

definition list_or_empty :: "'a list option \<Rightarrow> 'a list" where
  "list_or_empty xs = (case xs of None \<Rightarrow> [] | Some ys \<Rightarrow> ys)"

section \<open>Output formatter (format_output.py)\<close>

text \<open>
  The text appended to the history: the overview followed, for each topic, by a blank line
  and \<open>title: content\<close>.
\<close>

definition topic_line :: "(string \<times> string) list \<Rightarrow> string" where
  "topic_line topic =
     [CHR 0x0A, CHR 0x0A] @ dict_get_default topic ''title'' [] @ '': ''
       @ dict_get_default topic ''content'' []"

definition full_response :: "string \<Rightarrow> (string \<times> string) list list \<Rightarrow> string" where
  "full_response ov tps = foldl (\<lambda>acc topic. acc @ topic_line topic) ov tps"

definition assistant_turn :: "string \<Rightarrow> (string \<times> string) list" where
  "assistant_turn content = [(''role'', ''assistant''), (''content'', content)]"

text \<open>
  \<open>format_output\<close>. The two readings of the clock (\<open>ts\<close> in the \<open>try\<close> block,
  \<open>fallback_ts\<close> in the handler) and pydantic's \<open>model_dump\<close> are parameters;
  \<open>model_dump\<close> gives \<open>None\<close> where serializing a citation raises. The history is
  extended before the sources are serialized, and the handler does not undo it.
\<close>

definition format_output ::
  "(Citation \<Rightarrow> (string \<times> json) list option) \<Rightarrow> string \<Rightarrow> string \<Rightarrow> AgentState \<Rightarrow> AgentState"
where
  "format_output model_dump ts fallback_ts state =
     (let ov = str_or (overview state) (answer state);
          tps = list_or_empty (topics state);
          state1 =
            (if ov \<noteq> []
             then state\<lparr>history := history state @ [assistant_turn (full_response ov tps)]\<rparr>
             else state)
      in case those (map model_dump (list_or_empty (citations state1))) of
           Some srcs \<Rightarrow>
             state1\<lparr>final_payload := Some
               \<lparr>p_question = query state1, p_overview = ov,
                p_overview_image = overview_image state1, p_topics = tps,
                p_sources = srcs, p_timestamp = ts\<rparr>\<rparr>
         | None \<Rightarrow>
             state1\<lparr>final_payload := Some
               \<lparr>p_question = query state1,
                p_overview = str_or (overview state1) (answer state1),
                p_overview_image = overview_image state1,
                p_topics = list_or_empty (topics state1),
                p_sources = [], p_timestamp = fallback_ts\<rparr>\<rparr>)"

text \<open>A payload without its timestamp.\<close>

definition without_timestamp :: "payload \<Rightarrow> payload" where
  "without_timestamp p = p\<lparr>p_timestamp := []\<rparr>"

text \<open>A state after synthesis, with one citation.\<close>

definition demo_citation :: Citation where
  "demo_citation = \<lparr>c_id = 1, c_title = ''T'', c_url = ''http://a.example/x'',
     c_image = None, c_extended_snippet = None\<rparr>"

definition demo_state :: AgentState where
  "demo_state = \<lparr>query = ''q'', history = [[(''role'', ''user''), (''content'', ''q'')]],
     results = None, answer = Some ''An answer'',
     overview = Some ''An answer'', overview_image = None,
     topics = Some [[(''title'', ''A''), (''content'', ''B'')]],
     citations = Some [demo_citation], final_payload = None\<rparr>"

section \<open>Configuration (config.py) and calls to the providers\<close>

text \<open>The environment variables the stages read; an unset variable is \<open>None\<close>.\<close>

record config =
  OPENAI_API_KEY :: "string option"
  BRIGHT_DATA_API_KEY :: "string option"
  SERPAPI_API_KEY :: "string option"
  SERP_ZONE :: "string option"
  PRIORITIZE_MAX_RESULTS :: int

definition truthy_str :: "string option \<Rightarrow> bool" where
  "truthy_str a = (case a of None \<Rightarrow> False | Some s \<Rightarrow> s \<noteq> [])"

text \<open>\<open>a or b\<close> on two optional strings.\<close>

definition opt_or :: "string option \<Rightarrow> string option \<Rightarrow> string option" where
  "opt_or a b = (if truthy_str a then a else b)"

text \<open>What a call into code that uses the network does: it raises or it returns.\<close>

datatype 'a outcome = Raises error | Returns 'a

section \<open>Image enrichment (enrich_images.py)\<close>

text \<open>
  The two helpers that post to the image-search provider, \<open>_search_overview_image\<close> and
  \<open>_search_image_for_citation\<close>, are parameters of the stage: \<open>search_overview\<close> is given
  the query, \<open>search_citation\<close> the title and the URL of the citation, and each either
  raises or returns an optional image URL. The stage returns the exception that left it,
  if any, the state as the stage left it, and the helper calls it made.
\<close>

datatype provider_call = OverviewSearch string | CitationSearch string string

definition has_image :: "Citation \<Rightarrow> bool" where
  "has_image c = (case c_image c of None \<Rightarrow> False | Some s \<Rightarrow> py_strip s \<noteq> [])"

text \<open>The body of the loop over the completed futures, for one citation.\<close>

definition enrich_citation ::
  "(string \<Rightarrow> string \<Rightarrow> string option outcome) \<Rightarrow> Citation \<Rightarrow> Citation"
where
  "enrich_citation search_citation c =
     (case search_citation (c_title c) (c_url c) of
        Returns image_url \<Rightarrow>
          (if truthy_str image_url then c\<lparr>c_image := image_url\<rparr> else c)
      | Raises e \<Rightarrow> c)"

text \<open>
  Every future writes to its own citation and reads only the title and the URL, which no
  future changes, so the order in which the futures complete does not show in the result;
  the loop is run in the order of submission.
\<close>

definition enrich_all ::
  "(string \<Rightarrow> string \<Rightarrow> string option outcome) \<Rightarrow> nat list \<Rightarrow> Citation list \<Rightarrow> Citation list"
where
  "enrich_all search_citation idxs cs =
     foldl (\<lambda>acc i. acc[i := enrich_citation search_citation (acc ! i)]) cs idxs"

definition citations_to_enrich :: "Citation list \<Rightarrow> nat list" where
  "citations_to_enrich cs = filter (\<lambda>i. \<not> has_image (cs ! i)) [0..<length cs]"

definition enrich_citations ::
  "(string \<Rightarrow> string \<Rightarrow> string option outcome) \<Rightarrow> AgentState \<Rightarrow> provider_call list
     \<Rightarrow> error option \<times> AgentState \<times> provider_call list"
where
  "enrich_citations search_citation state calls =
     (let cs = list_or_empty (citations state)
      in if cs = [] then (None, state, calls)
         else
           let todo = citations_to_enrich cs
           in if todo = [] then (None, state, calls)
              else (None,
                    state\<lparr>citations := Some (enrich_all search_citation todo cs)\<rparr>,
                    calls @ map (\<lambda>i. CitationSearch (c_title (cs ! i)) (c_url (cs ! i))) todo))"

definition enrich_images ::
  "config \<Rightarrow> (string \<Rightarrow> string option outcome) \<Rightarrow> (string \<Rightarrow> string \<Rightarrow> string option outcome)
     \<Rightarrow> AgentState \<Rightarrow> error option \<times> AgentState \<times> provider_call list"
where
  "enrich_images cfg search_overview search_citation state =
     (let api_key = opt_or (BRIGHT_DATA_API_KEY cfg) (SERPAPI_API_KEY cfg);
          zone = SERP_ZONE cfg
      in if \<not> truthy_str api_key \<or> \<not> truthy_str zone then (None, state, [])
         else if \<not> truthy_str (overview_image state) then
           (if query state \<noteq> [] then
              (case search_overview (query state) of
                 Raises e \<Rightarrow> (Some e, state, [OverviewSearch (query state)])
               | Returns img \<Rightarrow>
                   enrich_citations search_citation
                     (if truthy_str img then state\<lparr>overview_image := img\<rparr> else state)
                     [OverviewSearch (query state)])
            else enrich_citations search_citation state [])
         else enrich_citations search_citation state [])"

text \<open>
  \<open>c'\<close> is \<open>c\<close> with the non-empty image URL that the search for \<open>c\<close> returned.
\<close>

definition image_found ::
  "(string \<Rightarrow> string \<Rightarrow> string option outcome) \<Rightarrow> Citation \<Rightarrow> Citation \<Rightarrow> bool"
where
  "image_found search_citation c c' =
     (case search_citation (c_title c) (c_url c) of
        Returns (Some u) \<Rightarrow> u \<noteq> [] \<and> c' = c\<lparr>c_image := Some u\<rparr>
      | _ \<Rightarrow> False)"

text \<open>Configurations and a state with two citations, the first with an image.\<close>

definition no_credentials :: config where
  "no_credentials = \<lparr>OPENAI_API_KEY = None, BRIGHT_DATA_API_KEY = None,
     SERPAPI_API_KEY = None, SERP_ZONE = None, PRIORITIZE_MAX_RESULTS = 5\<rparr>"

definition all_credentials :: config where
  "all_credentials = \<lparr>OPENAI_API_KEY = Some ''sk'', BRIGHT_DATA_API_KEY = Some ''bd'',
     SERPAPI_API_KEY = None, SERP_ZONE = Some ''serp'', PRIORITIZE_MAX_RESULTS = 5\<rparr>"

definition demo_cited :: AgentState where
  "demo_cited = demo_state\<lparr>citations := Some
     [demo_citation\<lparr>c_image := Some ''http://img.example/a.png''\<rparr>,
      demo_citation\<lparr>c_id := 2\<rparr>]\<rparr>"

section \<open>Answers of the LLM\<close>

text \<open>
  What a stage sees of its call to the LLM: the call (or reading the completion) raises,
  the completion is missing or empty, its text is not JSON, or \<open>json.loads\<close> returns a
  value.
\<close>

datatype llm_reply = LlmRaises error | LlmEmpty | LlmNotJson | LlmJson json

section \<open>Synthesis (synthesize.py)\<close>

text \<open>
  \<open>int(x)\<close> on a JSON value: a float is truncated towards zero, \<open>NaN\<close> and the infinities
  raise, a list or an object raises. Parsing a string is Python's own and is the parameter
  \<open>int_of_str\<close>, \<open>None\<close> where \<open>int\<close> raises \<open>ValueError\<close>. \<open>int(None)\<close> raises too, but
  the callers test for \<open>None\<close> first.
\<close>

definition truncate_rat :: "rat \<Rightarrow> int" where
  "truncate_rat q = (if 0 \<le> q then \<lfloor>q\<rfloor> else \<lceil>q\<rceil>)"

fun py_int :: "(string \<Rightarrow> int option) \<Rightarrow> json \<Rightarrow> error + int" where
  "py_int int_of_str (JBool b) = Inr (if b then 1 else 0)"
| "py_int int_of_str (JInt n) = Inr n"
| "py_int int_of_str (JFloat q) = Inr (truncate_rat q)"
| "py_int int_of_str JNonFinite = Inl ValueError"
| "py_int int_of_str (JStr s) = (case int_of_str s of None \<Rightarrow> Inl ValueError | Some n \<Rightarrow> Inr n)"
| "py_int int_of_str JNull = Inl TypeError"
| "py_int int_of_str (JList xs) = Inl TypeError"
| "py_int int_of_str (JObj kvs) = Inl TypeError"

text \<open>
  \<open>url_to_result.get(citation_url)\<close>: the dictionary is filled from all results in order,
  so the last result with the URL is the one found.
\<close>

definition url_to_result :: "SearchResult list \<Rightarrow> string \<Rightarrow> SearchResult option" where
  "url_to_result rs u = find (\<lambda>r. sr_url r = u) (rev rs)"

text \<open>
  The body of the loop over the proposed citations: \<open>None\<close> where the entry is skipped.
  An entry is skipped when it is not an object, when its \<open>id\<close> is missing or null, when
  its \<open>url\<close> is not a string (looking it up or slicing it raises \<open>TypeError\<close>), when
  \<open>int(cid)\<close> raises, and when pydantic rejects the title because it is not a string. A
  missing \<open>url\<close> or \<open>title\<close> is the empty string.
\<close>

definition build_citation ::
  "(string \<Rightarrow> int option) \<Rightarrow> SearchResult list \<Rightarrow> json \<Rightarrow> Citation option"
where
  "build_citation int_of_str rs c =
     (case c of
        JObj d \<Rightarrow>
          (let cid = dict_get d ''id''
           in if cid = JNull then None
              else
                (case dict_get_default d ''url'' (JStr []) of
                   JStr citation_url \<Rightarrow>
                     (let extended_snippet =
                            (case url_to_result rs citation_url of
                               None \<Rightarrow> None
                             | Some r \<Rightarrow> sr_extended_snippet r)
                      in case py_int int_of_str cid of
                           Inl e \<Rightarrow> None
                         | Inr n \<Rightarrow>
                             (case dict_get_default d ''title'' (JStr []) of
                                JStr t \<Rightarrow>
                                  Some \<lparr>c_id = n, c_title = t, c_url = citation_url,
                                        c_image = None, c_extended_snippet = extended_snippet\<rparr>
                              | _ \<Rightarrow> None))
                 | _ \<Rightarrow> None))
      | _ \<Rightarrow> None)"

definition collect_citations ::
  "(string \<Rightarrow> int option) \<Rightarrow> SearchResult list \<Rightarrow> json list \<Rightarrow> Citation list"
where
  "collect_citations int_of_str rs cits =
     foldl (\<lambda>acc c. case build_citation int_of_str rs c of
                       None \<Rightarrow> acc
                     | Some citation \<Rightarrow> acc @ [citation]) [] cits"

text \<open>\<open>cits = data.get("citations", [])\<close>, replaced by the empty list when it is no list.\<close>

definition proposed_citations :: "(string \<times> json) list \<Rightarrow> json list" where
  "proposed_citations data =
     (case dict_get_default data ''citations'' (JList []) of JList cits \<Rightarrow> cits | _ \<Rightarrow> [])"

text \<open>
  The topics: objects with a \<open>title\<close> and a \<open>content\<close> key, both turned into strings by
  \<open>str\<close> (the parameter \<open>str_of\<close>), at most two of them.
\<close>

definition validated_topics ::
  "(json \<Rightarrow> string) \<Rightarrow> (string \<times> json) list \<Rightarrow> (string \<times> string) list list"
where
  "validated_topics str_of data =
     (case dict_get_default data ''topics'' (JList []) of
        JList tps \<Rightarrow>
          take 2 (concat (map (\<lambda>topic.
            (case topic of
               JObj t \<Rightarrow>
                 (if map_of t ''title'' \<noteq> None \<and> map_of t ''content'' \<noteq> None
                  then [[(''title'', str_of (dict_get_default t ''title'' (JStr []))),
                         (''content'', str_of (dict_get_default t ''content'' (JStr [])))]]
                  else [])
             | _ \<Rightarrow> [])) tps))
      | _ \<Rightarrow> [])"

text \<open>The degraded output of the stage.\<close>

definition empty_synthesis :: "AgentState \<Rightarrow> AgentState" where
  "empty_synthesis state =
     state\<lparr>overview := Some [], answer := Some [], topics := Some [], citations := Some []\<rparr>"

text \<open>
  \<open>overview = data.get("overview", data.get("answer", ""))\<close>, stored in \<open>state.overview\<close>
  and \<open>state.answer\<close> as the LLM gave it. state.py types both fields \<open>str | None\<close>, and the
  assignment does not check the value. The record holds what the type allows; a value that
  is neither a string nor null cannot be held in it, and the outcome of the stage says so:
  \<open>IllTyped v st\<close> is the state whose overview and answer are the value \<open>v\<close> and whose other
  fields are those of \<open>st\<close>.
\<close>

definition overview_value :: "(string \<times> json) list \<Rightarrow> json" where
  "overview_value data =
     dict_get_default data ''overview'' (dict_get_default data ''answer'' (JStr []))"

datatype synthesis = WellTyped AgentState | IllTyped json AgentState

fun synthesized_state :: "synthesis \<Rightarrow> AgentState" where
  "synthesized_state (WellTyped st) = st"
| "synthesized_state (IllTyped v st) = st"

definition store_overview :: "json \<Rightarrow> AgentState \<Rightarrow> synthesis" where
  "store_overview v state =
     (case v of
        JStr s \<Rightarrow> WellTyped (state\<lparr>overview := Some s, answer := Some s\<rparr>)
      | JNull \<Rightarrow> WellTyped (state\<lparr>overview := None, answer := None\<rparr>)
      | _ \<Rightarrow> IllTyped v state)"

text \<open>
  \<open>synthesize\<close>. A parsed value that is not an object has no \<open>get\<close>: the
  \<open>AttributeError\<close> is caught like every other exception of the \<open>try\<close> block. After the
  overview is stored nothing in the block raises past the loop over the citations.
\<close>

definition synthesize ::
  "config \<Rightarrow> (string \<Rightarrow> int option) \<Rightarrow> (json \<Rightarrow> string) \<Rightarrow> llm_reply \<Rightarrow> AgentState \<Rightarrow> synthesis"
where
  "synthesize cfg int_of_str str_of reply state =
     (let rs = take 5 (list_or_empty (results state))
      in if \<not> truthy_str (OPENAI_API_KEY cfg) then WellTyped (empty_synthesis state)
         else if rs = [] then WellTyped (empty_synthesis state)
         else
           (case reply of
              LlmRaises e \<Rightarrow> WellTyped (empty_synthesis state)
            | LlmEmpty \<Rightarrow> WellTyped (empty_synthesis state)
            | LlmNotJson \<Rightarrow> WellTyped (empty_synthesis state)
            | LlmJson (JObj data) \<Rightarrow>
                store_overview (overview_value data)
                  (state\<lparr>topics := Some (validated_topics str_of data),
                         citations := Some (take 5
                           (collect_citations int_of_str (list_or_empty (results state))
                              (proposed_citations data)))\<rparr>)
            | LlmJson _ \<Rightarrow> WellTyped (empty_synthesis state)))"

subsection \<open>The vocabulary of the citation claim\<close>

text \<open>
  The integer that an \<open>id\<close> is coerced to: an integer is itself, a float is its integer
  part, a boolean is 0 or 1, a string is what \<open>int\<close> reads in it; nothing else has one.
\<close>

definition coerced_id :: "(string \<Rightarrow> int option) \<Rightarrow> json \<Rightarrow> int option" where
  "coerced_id int_of_str v =
     (case v of
        JInt n \<Rightarrow> Some n
      | JFloat q \<Rightarrow> Some (if 0 \<le> q then \<lfloor>q\<rfloor> else \<lceil>q\<rceil>)
      | JBool b \<Rightarrow> Some (if b then 1 else 0)
      | JStr s \<Rightarrow> int_of_str s
      | _ \<Rightarrow> None)"

text \<open>
  An entry that is not an object, that has no \<open>id\<close> (or a null one), or whose \<open>id\<close>
  cannot be coerced to an integer.
\<close>

definition malformed_citation :: "(string \<Rightarrow> int option) \<Rightarrow> json \<Rightarrow> bool" where
  "malformed_citation int_of_str c =
     (case c of
        JObj d \<Rightarrow>
          (case map_of d ''id'' of
             None \<Rightarrow> True
           | Some v \<Rightarrow> v = JNull \<or> coerced_id int_of_str v = None)
      | _ \<Rightarrow> True)"

text \<open>
  An entry with a \<open>title\<close> or a \<open>url\<close> that is not a string: pydantic refuses the title,
  and looking up or slicing the URL raises.
\<close>

definition mistyped_citation :: "json \<Rightarrow> bool" where
  "mistyped_citation c =
     (case c of
        JObj d \<Rightarrow>
          (case map_of d ''title'' of None \<Rightarrow> False | Some (JStr t) \<Rightarrow> False | Some _ \<Rightarrow> True)
          \<or> (case map_of d ''url'' of None \<Rightarrow> False | Some (JStr u) \<Rightarrow> False | Some _ \<Rightarrow> True)
      | _ \<Rightarrow> False)"

text \<open>
  The citation of an entry that is neither: its coerced \<open>id\<close>, its title and URL (empty
  when missing), no image, and the extended snippet of the last result with that URL.
\<close>

definition text_field :: "(string \<times> json) list \<Rightarrow> string \<Rightarrow> string" where
  "text_field d k = (case map_of d k of Some (JStr s) \<Rightarrow> s | _ \<Rightarrow> [])"

definition snippet_for :: "SearchResult list \<Rightarrow> string \<Rightarrow> string option" where
  "snippet_for rs u =
     (case filter (\<lambda>r. sr_url r = u) rs of [] \<Rightarrow> None | x # xs \<Rightarrow> sr_extended_snippet (last (x # xs)))"

definition citation_of :: "SearchResult list \<Rightarrow> int \<Rightarrow> (string \<times> json) list \<Rightarrow> Citation" where
  "citation_of rs n d =
     \<lparr>c_id = n, c_title = text_field d ''title'', c_url = text_field d ''url'',
      c_image = None, c_extended_snippet = snippet_for rs (text_field d ''url'')\<rparr>"

text \<open>
  A state after a search with one result; a reading of strings as integers that knows
  \<open>"7"\<close>; and an answer of the LLM with nine proposed citations: the second has no \<open>id\<close>,
  the third is not an object, the seventh has an \<open>id\<close> that is no number, and the ids of
  the others are an integer, a string, a float and a boolean.
\<close>

definition demo_result :: SearchResult where
  "demo_result = \<lparr>sr_title = ''A'', sr_url = ''http://a.example/x'', sr_snippet = ''s'',
     sr_domain = ''a.example'', sr_extended_snippet = Some ''long'',
     sr_snippet_highlighted = None, sr_position = None, sr_date = None, sr_cite = None,
     sr_thumbnail = None, sr_breadcrumb = None, sr_keywords = None, sr_cached_link = None\<rparr>"

definition demo_searched :: AgentState where
  "demo_searched = \<lparr>query = ''q'', history = [], results = Some [demo_result],
     answer = None, overview = None, overview_image = None,
     topics = None, citations = None, final_payload = None\<rparr>"

definition demo_int :: "string \<Rightarrow> int option" where
  "demo_int s = (if s = ''7'' then Some 7 else None)"

definition demo_answer :: "(string \<times> json) list" where
  "demo_answer =
     [(''overview'', JStr ''An answer [1]''),
      (''citations'', JList
         [JObj [(''id'', JInt 1), (''title'', JStr ''A''), (''url'', JStr ''http://a.example/x'')],
          JObj [(''title'', JStr ''B''), (''url'', JStr ''http://b.example/'')],
          JStr ''three'',
          JObj [(''id'', JStr ''7''), (''title'', JStr ''D''), (''url'', JStr ''http://d.example/'')],
          JObj [(''id'', JFloat (29 / 10)), (''title'', JStr ''E'')],
          JObj [(''id'', JBool True), (''url'', JStr ''http://f.example/'')],
          JObj [(''id'', JStr ''seven''), (''title'', JStr ''G'')],
          JObj [(''id'', JInt 8), (''title'', JStr ''H''), (''url'', JStr ''http://h.example/'')],
          JObj [(''id'', JInt 9), (''title'', JStr ''I''), (''url'', JStr ''http://i.example/'')]])]"

section \<open>Ranking (prioritize.py)\<close>

text \<open>
  The ranking stage assigns to \<open>state.ranked_results\<close> and to \<open>r.reputability_score\<close>.
  state.py declares neither field, on \<open>AgentState\<close> or on \<open>SearchResult\<close>, and neither
  class allows extra attributes: pydantic refuses each of the two assignments with a
  \<open>ValueError\<close>, whatever the value.
\<close>

definition set_ranked_results :: "SearchResult list \<Rightarrow> AgentState \<Rightarrow> error + AgentState" where
  "set_ranked_results ranked state = Inl ValueError"

definition set_reputability_score :: "SearchResult \<Rightarrow> error + SearchResult" where
  "set_reputability_score r = Inl ValueError"

text \<open>\<open>xs[:k]\<close> for an integer \<open>k\<close>: a negative \<open>k\<close> counts from the end.\<close>

definition py_take :: "int \<Rightarrow> 'a list \<Rightarrow> 'a list" where
  "py_take k xs = (if 0 \<le> k then take (nat k) xs else take (nat (int (length xs) + k)) xs)"

text \<open>\<open>isinstance(rank, (int, float))\<close>; a \<open>bool\<close> is an \<open>int\<close>.\<close>

fun is_number :: "json \<Rightarrow> bool" where
  "is_number (JBool b) = True"
| "is_number (JInt n) = True"
| "is_number (JFloat q) = True"
| "is_number JNonFinite = True"
| "is_number _ = False"

text \<open>
  \<open>for entry in ordered\<close>: a list gives its elements, an object its keys, a string its
  characters, and any other value is not iterable.
\<close>

fun iterate :: "json \<Rightarrow> error + json list" where
  "iterate (JList xs) = Inr xs"
| "iterate (JObj kvs) = Inr (map (\<lambda>kv. JStr (fst kv)) kvs)"
| "iterate (JStr s) = Inr (map (\<lambda>c. JStr [c]) s)"
| "iterate _ = Inl TypeError"

text \<open>
  The inner loop \<open>for r in results: if _match_url(url, r.url): ... break\<close>: the position
  of the first result whose URL matches.
\<close>

fun first_match :: "string \<Rightarrow> SearchResult list \<Rightarrow> nat option" where
  "first_match u [] = None"
| "first_match u (r # rs) =
     (if match_url u (sr_url r) then Some 0 else map_option Suc (first_match u rs))"

text \<open>
  The body of the first pass for one entry: \<open>None\<close> where the entry is passed over, and
  the exception otherwise. A \<open>url\<close> that is truthy and no string has no \<open>lower\<close>:
  \<open>_normalize_url\<close> raises \<open>AttributeError\<close> for the first result. For an entry that is
  resolved, \<open>int(rank)\<close> raises or gives the rank, \<open>float(rank_int)\<close> raises
  \<open>OverflowError\<close> on an integer past the range of a double (the parameter
  \<open>float_raises\<close>), and the assignment of the score raises. So an entry is either passed
  over or ends the pass with an exception, and the ranked map, which is assigned to only
  on the way to the score, is never read with an entry in it.
\<close>

definition first_pass_step ::
  "(int \<Rightarrow> bool) \<Rightarrow> json \<Rightarrow> SearchResult list \<Rightarrow> error option"
where
  "first_pass_step float_raises entry rs =
     (case entry of
        JObj d \<Rightarrow>
          (let url = dict_get d ''url''; rank = dict_get d ''rank''
           in if \<not> is_number rank then None
              else if \<not> py_truthy url then None
              else
                (case url of
                   JStr u \<Rightarrow>
                     (case first_match u rs of
                        None \<Rightarrow> None
                      | Some i \<Rightarrow>
                          (case py_int (\<lambda>s. None) rank of
                             Inl e \<Rightarrow> Some e
                           | Inr rank_int \<Rightarrow>
                               if float_raises rank_int then Some OverflowError
                               else (case set_reputability_score (rs ! i) of
                                       Inl e \<Rightarrow> Some e
                                     | Inr r \<Rightarrow> None)))
                 | _ \<Rightarrow> (if rs = [] then None else Some AttributeError)))
      | _ \<Rightarrow> None)"

fun first_pass :: "(int \<Rightarrow> bool) \<Rightarrow> json list \<Rightarrow> SearchResult list \<Rightarrow> error option" where
  "first_pass float_raises [] rs = None"
| "first_pass float_raises (entry # entries) rs =
     (case first_pass_step float_raises entry rs of
        None \<Rightarrow> first_pass float_raises entries rs
      | Some e \<Rightarrow> Some e)"

text \<open>
  The fallback that the stage writes in five places: the assignment of the first results
  to \<open>state.ranked_results\<close>, which raises before the loop over them is reached.
\<close>

definition fallback :: "config \<Rightarrow> SearchResult list \<Rightarrow> AgentState \<Rightarrow> error + AgentState" where
  "fallback cfg rs state = set_ranked_results (py_take (PRIORITIZE_MAX_RESULTS cfg) rs) state"

text \<open>
  The \<open>try\<close> block, from the answer of the LLM on. Where the first pass ends without an
  exception the ranked map is empty, and the block takes the fallback.
\<close>

definition ranking_block ::
  "config \<Rightarrow> (int \<Rightarrow> bool) \<Rightarrow> llm_reply \<Rightarrow> SearchResult list \<Rightarrow> AgentState \<Rightarrow> error + AgentState"
where
  "ranking_block cfg float_raises reply rs state =
     (case reply of
        LlmRaises e \<Rightarrow> Inl e
      | LlmEmpty \<Rightarrow> fallback cfg rs state
      | LlmNotJson \<Rightarrow> Inl JSONDecodeError
      | LlmJson ordered \<Rightarrow>
          (case iterate ordered of
             Inl e \<Rightarrow> Inl e
           | Inr entries \<Rightarrow>
               (case first_pass float_raises entries rs of
                  Some e \<Rightarrow> Inl e
                | None \<Rightarrow> fallback cfg rs state)))"

text \<open>
  \<open>prioritize_sources\<close>. Both handlers of the \<open>try\<close> block, the one for
  \<open>json.JSONDecodeError\<close> and the one for every other exception, write the fallback; an
  exception raised in a handler leaves the stage.
\<close>

definition prioritize_sources ::
  "config \<Rightarrow> (int \<Rightarrow> bool) \<Rightarrow> llm_reply \<Rightarrow> AgentState \<Rightarrow> error + AgentState"
where
  "prioritize_sources cfg float_raises reply state =
     (let rs = list_or_empty (results state)
      in if rs = [] then set_ranked_results [] state
         else if \<not> truthy_str (OPENAI_API_KEY cfg) then fallback cfg rs state
         else
           (case ranking_block cfg float_raises reply rs state of
              Inl e \<Rightarrow> fallback cfg rs state
            | Inr state' \<Rightarrow> Inr state'))"

text \<open>Three results, and the ranking of the specification's scenario for them.\<close>

definition result_at :: "string \<Rightarrow> SearchResult" where
  "result_at u = demo_result\<lparr>sr_url := u\<rparr>"

definition three_results :: "SearchResult list" where
  "three_results =
     [result_at ''https://a.example/x'', result_at ''https://b.example/y'',
      result_at ''https://c.example/z'']"

definition three_searched :: AgentState where
  "three_searched = demo_searched\<lparr>results := Some three_results\<rparr>"

definition rank_entry :: "string \<Rightarrow> json \<Rightarrow> json" where
  "rank_entry u rank = JObj [(''url'', JStr u), (''rank'', rank)]"

definition two_ranked :: "json list" where
  "two_ranked =
     [rank_entry ''https://a.example/x'' (JInt 1), rank_entry ''https://b.example/y'' (JInt 2)]"

section \<open>Search (search.py) and the pipeline (graph.py)\<close>

text \<open>
  \<open>json.loads\<close> on the text of a body. A JSON document starts, after blanks, with the
  first character of a value; \<open>json.loads\<close> raises \<open>JSONDecodeError\<close> on any other text
  and on the empty one. What it does with a text that starts like a value is the
  parameter \<open>parse\<close>, \<open>None\<close> where it raises.
\<close>

definition json_blank :: "char \<Rightarrow> bool" where
  "json_blank c = (c \<in> set [CHR '' '', CHR 0x09, CHR 0x0A, CHR 0x0D])"

definition json_start :: "char \<Rightarrow> bool" where
  "json_start c = (c \<in> set (''{[-0123456789tfnNI'' @ [CHR 0x22]))"

definition json_loads :: "(string \<Rightarrow> json option) \<Rightarrow> string \<Rightarrow> json option" where
  "json_loads parse s =
     (case dropWhile json_blank s of
        [] \<Rightarrow> None
      | c # cs \<Rightarrow> if json_start c then parse s else None)"

text \<open>
  The only handler of the \<open>try\<close> block of \<open>search\<close>:
  \<open>except requests.exceptions.RequestException\<close>. It stores an empty list of results; any
  other exception leaves the stage.
\<close>

definition search_handler :: "error \<Rightarrow> AgentState \<Rightarrow> error + AgentState" where
  "search_handler e state =
     (if e = RequestException then Inr (state\<lparr>results := Some []\<rparr>) else Inl e)"

text \<open>
  \<open>search\<close>. \<open>response\<close> is what posting the request and decoding the response as JSON
  give: an exception, or the decoded \<open>api_response\<close>. The rest of the \<open>try\<close> block, which
  reads the overview image and the organic results out of the body, is the parameter
  \<open>extract\<close>: it returns the new state, or an exception with the state as it is by then.
  \<open>api_response.get\<close> raises \<open>AttributeError\<close> when the response is no object.
\<close>

definition search ::
  "config \<Rightarrow> json outcome \<Rightarrow> (string \<Rightarrow> json option)
     \<Rightarrow> (json \<Rightarrow> AgentState \<Rightarrow> (error \<times> AgentState) + AgentState)
     \<Rightarrow> AgentState \<Rightarrow> error + AgentState"
where
  "search cfg response parse extract state =
     (let api_key = opt_or (BRIGHT_DATA_API_KEY cfg) (SERPAPI_API_KEY cfg)
      in if \<not> truthy_str api_key then Inr (state\<lparr>results := Some []\<rparr>)
         else if \<not> truthy_str (SERP_ZONE cfg) then Inr (state\<lparr>results := Some []\<rparr>)
         else
           (case response of
              Raises e \<Rightarrow> search_handler e state
            | Returns api_response \<Rightarrow>
                (case api_response of
                   JObj d \<Rightarrow>
                     (let body = dict_get_default d ''body'' (JObj [])
                      in case (case body of
                                 JStr s \<Rightarrow>
                                   (case json_loads parse s of
                                      None \<Rightarrow> Inl JSONDecodeError
                                    | Some b \<Rightarrow> Inr b)
                               | _ \<Rightarrow> Inr body) of
                           Inl e \<Rightarrow> search_handler e state
                         | Inr body' \<Rightarrow>
                             (case extract body' state of
                                Inl (e, state') \<Rightarrow> search_handler e state'
                              | Inr state' \<Rightarrow> Inr state'))
                 | _ \<Rightarrow> search_handler AttributeError state)))"

text \<open>
  The graph of graph.py: search, synthesis, image enrichment, formatter. An exception
  that leaves a stage leaves \<open>graph.invoke\<close>; main.py answers it with an HTTP 500, and
  there is no final payload. The graph validates the state against \<open>AgentState\<close> when it
  hands it to the next stage: a state whose overview is neither a string nor null is
  refused there with pydantic's \<open>ValidationError\<close>.
\<close>

record providers =
  serp_response :: "json outcome"
  serp_parse :: "string \<Rightarrow> json option"
  serp_extract :: "json \<Rightarrow> AgentState \<Rightarrow> (error \<times> AgentState) + AgentState"
  llm_int_of_str :: "string \<Rightarrow> int option"
  llm_str_of :: "json \<Rightarrow> string"
  llm_answer :: llm_reply
  image_overview :: "string \<Rightarrow> string option outcome"
  image_citation :: "string \<Rightarrow> string \<Rightarrow> string option outcome"
  dump_citation :: "Citation \<Rightarrow> (string \<times> json) list option"
  clock :: string
  clock_fallback :: string

definition pipeline :: "config \<Rightarrow> providers \<Rightarrow> AgentState \<Rightarrow> error + AgentState" where
  "pipeline cfg env state =
     (case search cfg (serp_response env) (serp_parse env) (serp_extract env) state of
        Inl e \<Rightarrow> Inl e
      | Inr searched \<Rightarrow>
          (case synthesize cfg (llm_int_of_str env) (llm_str_of env) (llm_answer env) searched of
             IllTyped v st \<Rightarrow> Inl ValidationError
           | WellTyped synthesized \<Rightarrow>
               (case enrich_images cfg (image_overview env) (image_citation env) synthesized of
                  (Some e, enriched, calls) \<Rightarrow> Inl e
                | (None, enriched, calls) \<Rightarrow>
                    Inr (format_output (dump_citation env) (clock env) (clock_fallback env)
                           enriched))))"

text \<open>
  The answer of the provider whose body is the text of an HTML error page, and an incoming
  request.
\<close>

definition html_body :: json where
  "html_body = JObj [(''status_code'', JInt 502), (''body'', JStr ''<html>Bad Gateway</html>'')]"

definition incoming :: "string \<Rightarrow> AgentState" where
  "incoming q = \<lparr>query = q, history = [[(''role'', ''user''), (''content'', q)]],
     results = None, answer = None, overview = None,
     overview_image = None, topics = None, citations = None, final_payload = None\<rparr>"

section \<open>Properties of the URL normalizer and matcher\<close>

lemma py_startswith_prefix: "py_startswith s p = prefix p s"
  by (induction s p rule: py_startswith.induct) auto

lemma py_strip_Nil: "py_strip [] = []"
  by (simp add: py_strip_def py_rstrip_def py_lstrip_def)

lemma py_lower_Nil: "py_lower [] = []"
  by (simp add: py_lower_def)

lemma py_rstrip_chars_Nil: "py_rstrip_chars c [] = []"
  by (simp add: py_rstrip_chars_def)

lemma normalize_url_amended: "normalize_url u = normalize_amended u"
  by (simp add: normalize_url_def normalize_amended_def strip_www_def strip_prefix_def
      py_strip_Nil py_lower_Nil py_rstrip_chars_Nil Let_def)



lemma py_rstrip_chars_snoc: "py_rstrip_chars c (s @ [c]) = py_rstrip_chars c s"
  by (simp add: py_rstrip_chars_def)

lemma py_rstrip_chars_prefix: "prefix (py_rstrip_chars c s) s"
proof -
  have "rev s = takeWhile (\<lambda>x. x = c) (rev s) @ dropWhile (\<lambda>x. x = c) (rev s)"
    by simp
  then have "s = rev (dropWhile (\<lambda>x. x = c) (rev s)) @ rev (takeWhile (\<lambda>x. x = c) (rev s))"
    by (metis rev_append rev_rev_ident)
  then show ?thesis
    unfolding py_rstrip_chars_def by (metis prefixI)
qed

lemma not_startswith_rstrip:
  "\<not> py_startswith s p \<Longrightarrow> \<not> py_startswith (py_rstrip_chars c s) p"
  using py_rstrip_chars_prefix [of c s] by (auto simp: py_startswith_prefix dest: prefix_order.trans)


lemma rstrip_one_slash:
  assumes "\<not> suffix ''//'' v"
  shows "py_rstrip_chars (CHR ''/'') v = strip_one_trailing_slash v"
proof (cases "v \<noteq> [] \<and> last v = CHR ''/''")
  case True
  then obtain v' where v: "v = v' @ ''/''"
    by (metis append_butlast_last_id)
  have "v' = [] \<or> last v' \<noteq> CHR ''/''"
  proof (rule ccontr)
    assume "\<not> ?thesis"
    then obtain v'' where "v' = v'' @ ''/''"
      by (metis append_butlast_last_id)
    with v have "suffix ''//'' v"
      by (simp add: suffix_def)
    with assms show False by simp
  qed
  then have "dropWhile (\<lambda>x. x = CHR ''/'') (rev v') = rev v'"
    by (auto simp: dropWhile_eq_self_iff hd_rev)
  then have "py_rstrip_chars (CHR ''/'') v' = v'"
    by (simp add: py_rstrip_chars_def)
  then show ?thesis
    using py_rstrip_chars_snoc [of "CHR ''/''" v'] by (simp add: v strip_one_trailing_slash_def)
next
  case False
  then have "dropWhile (\<lambda>x. x = CHR ''/'') (rev v) = rev v"
    by (auto simp: dropWhile_eq_self_iff hd_rev)
  with False show ?thesis
    by (auto simp: py_rstrip_chars_def strip_one_trailing_slash_def)
qed

lemma double_scheme:
  assumes "py_startswith x ''http://''" "py_startswith (drop 7 x) ''https://''"
  shows "py_startswith x ''http://https://''"
proof -
  from assms(1) obtain y where x: "x = ''http://'' @ y"
    by (auto simp: py_startswith_prefix prefix_def)
  then have "drop 7 x = y" by simp
  with assms(2) obtain z where "y = ''https://'' @ z"
    by (auto simp: py_startswith_prefix prefix_def)
  with x show ?thesis by simp
qed

lemma strip_scheme_once:
  assumes "\<not> py_startswith x ''http://https://''"
  shows "strip_prefix ''https://'' (strip_prefix ''http://'' x) = strip_scheme x"
proof -
  have l7: "length ''http://'' = 7" and l8: "length ''https://'' = 8"
    by simp_all
  show ?thesis
  proof (cases "py_startswith x ''http://''")
    case True
    with assms have "\<not> py_startswith (drop 7 x) ''https://''"
      using double_scheme [of x] by blast
    with True show ?thesis
      unfolding strip_prefix_def strip_scheme_def l7 l8 by simp
  next
    case False
    then show ?thesis
      unfolding strip_prefix_def strip_scheme_def l7 l8 by simp
  qed
qed

text \<open>
  Claim C4, as amended. For every input string \<open>_normalize_url\<close> lower-cases it, strips
  the surrounding white space, strips every trailing slash (not only one), strips a leading
  \<open>http://\<close> and then a leading \<open>https://\<close>, and strips a leading \<open>www.\<close> prefix.
  Where the lower-cased, stripped input does not end in two slashes and does not start with
  \<open>http://https://\<close>, this is the pipeline of the specification, which strips a single
  slash and one scheme. In particular \<open>HTTP://WWW.Example.com/Path/\<close> and
  \<open>example.com/Path\<close> have the same normal form.
\<close>

theorem normalize_url_steps:
  "normalize_url u = normalize_amended u
   \<and> (\<not> suffix ''//'' (py_strip (py_lower u))
        \<and> \<not> py_startswith (py_strip (py_lower u)) ''http://https://''
       \<longrightarrow> normalize_url u = normalize_spec u)
   \<and> normalize_url ''HTTP://WWW.Example.com/Path/'' = normalize_url ''example.com/Path''"
proof (intro conjI impI)
  show "normalize_url u = normalize_amended u"
    by (rule normalize_url_amended)
  show "normalize_url ''HTTP://WWW.Example.com/Path/'' = normalize_url ''example.com/Path''"
    by code_simp
next
  define v where "v = py_strip (py_lower u)"
  assume "\<not> suffix ''//'' (py_strip (py_lower u))
        \<and> \<not> py_startswith (py_strip (py_lower u)) ''http://https://''"
  then have a: "\<not> suffix ''//'' v" and b: "\<not> py_startswith v ''http://https://''"
    by (simp_all add: v_def)
  have r: "py_rstrip_chars (CHR ''/'') v = strip_one_trailing_slash v"
    using a by (rule rstrip_one_slash)
  have "\<not> py_startswith (py_rstrip_chars (CHR ''/'') v) ''http://https://''"
    using b by (rule not_startswith_rstrip)
  then have "strip_prefix ''https://'' (strip_prefix ''http://'' (strip_one_trailing_slash v))
      = strip_scheme (strip_one_trailing_slash v)"
    unfolding r by (rule strip_scheme_once)
  then have "strip_www (strip_prefix ''https://'' (strip_prefix ''http://''
        (py_rstrip_chars (CHR ''/'') v))) = strip_www (strip_scheme (strip_one_trailing_slash v))"
    unfolding r by simp
  then show "normalize_url u = normalize_spec u"
    unfolding normalize_url_amended normalize_amended_def normalize_spec_def v_def .
qed

theorem normalize_url_steps_witness:
  "\<not> suffix ''//'' (py_strip (py_lower ''HTTP://WWW.Example.com/Path/''))
   \<and> \<not> py_startswith (py_strip (py_lower ''HTTP://WWW.Example.com/Path/'')) ''http://https://''
   \<and> normalize_url ''HTTP://WWW.Example.com/Path/'' = normalize_spec ''HTTP://WWW.Example.com/Path/''
   \<and> normalize_spec ''HTTP://WWW.Example.com/Path/'' = ''example.com/path''"
proof -
  have h1: "\<not> suffix ''//'' (py_strip (py_lower ''HTTP://WWW.Example.com/Path/''))"
    by code_simp
  have h2: "\<not> py_startswith (py_strip (py_lower ''HTTP://WWW.Example.com/Path/'')) ''http://https://''"
    by code_simp
  have h3: "normalize_spec ''HTTP://WWW.Example.com/Path/'' = ''example.com/path''"
    by code_simp
  from normalize_url_steps [of "''HTTP://WWW.Example.com/Path/''"] h1 h2 h3
  show ?thesis by blast
qed

text \<open>
  With two trailing slashes the code and the wording of the specification part: the code
  removes both, "a single trailing slash" leaves one.
\<close>

theorem normalize_single_slash_counterexample:
  "normalize_url ''example.com//'' \<noteq> normalize_spec ''example.com//''"
  by code_simp








section \<open>Properties of the output formatter\<close>

lemma format_output_payload:
  "final_payload (format_output md ts fb st) =
     Some (case those (map md (list_or_empty (citations st))) of
             Some srcs \<Rightarrow>
               \<lparr>p_question = query st, p_overview = str_or (overview st) (answer st),
                p_overview_image = overview_image st, p_topics = list_or_empty (topics st),
                p_sources = srcs, p_timestamp = ts\<rparr>
           | None \<Rightarrow>
               \<lparr>p_question = query st, p_overview = str_or (overview st) (answer st),
                p_overview_image = overview_image st, p_topics = list_or_empty (topics st),
                p_sources = [], p_timestamp = fb\<rparr>)"
  by (simp add: format_output_def Let_def split: option.splits)

lemma format_output_frame:
  "query (format_output md ts fb st) = query st"
  "overview (format_output md ts fb st) = overview st"
  "answer (format_output md ts fb st) = answer st"
  "overview_image (format_output md ts fb st) = overview_image st"
  "topics (format_output md ts fb st) = topics st"
  "citations (format_output md ts fb st) = citations st"
  by (simp_all add: format_output_def Let_def split: option.splits)

text \<open>
  Claim C8. Two runs of the formatter on the same state, and a second run on the state the
  first run returned, store payloads that agree in every field except the timestamp; the
  stage always stores a payload. The payload is computed from \<open>query\<close>, \<open>overview\<close>,
  \<open>answer\<close>, \<open>overview_image\<close>, \<open>topics\<close> and \<open>citations\<close>, none of which the stage
  changes.
\<close>

theorem format_output_idempotent:
  "final_payload (format_output md ts fb st) \<noteq> None
   \<and> map_option without_timestamp (final_payload (format_output md ts' fb' st))
     = map_option without_timestamp (final_payload (format_output md ts fb st))
   \<and> map_option without_timestamp
       (final_payload (format_output md ts' fb' (format_output md ts fb st)))
     = map_option without_timestamp (final_payload (format_output md ts fb st))"
  by (simp add: format_output_payload format_output_frame without_timestamp_def
      split: option.splits)

text \<open>
  Claim C10. The assistant turn is appended to the history before the payload is
  assembled: when serializing a citation raises and there is an overview, the stage stores
  the fallback payload with no sources, and the history keeps the turn appended before the
  failure.
\<close>

theorem format_output_history_not_rolled_back:
  assumes "those (map md (list_or_empty (citations st))) = None"
    and "str_or (overview st) (answer st) \<noteq> []"
  shows "final_payload (format_output md ts fb st) =
           Some \<lparr>p_question = query st, p_overview = str_or (overview st) (answer st),
                 p_overview_image = overview_image st, p_topics = list_or_empty (topics st),
                 p_sources = [], p_timestamp = fb\<rparr>
         \<and> history (format_output md ts fb st) =
             history st @ [assistant_turn (full_response (str_or (overview st) (answer st))
                                             (list_or_empty (topics st)))]
         \<and> history (format_output md ts fb st) \<noteq> history st"
  using assms by (simp add: format_output_def Let_def)

theorem format_output_history_not_rolled_back_witness:
  "those (map (\<lambda>c. None :: (string \<times> json) list option)
      (list_or_empty (citations demo_state))) = None
   \<and> str_or (overview demo_state) (answer demo_state) \<noteq> []
   \<and> map_option p_sources (final_payload (format_output (\<lambda>c. None) ''t1'' ''t2'' demo_state)) = Some []
   \<and> length (history (format_output (\<lambda>c. None) ''t1'' ''t2'' demo_state)) = 2"
proof -
  have h1: "those (map (\<lambda>c. None :: (string \<times> json) list option)
      (list_or_empty (citations demo_state))) = None"
    by (simp add: demo_state_def list_or_empty_def)
  have h2: "str_or (overview demo_state) (answer demo_state) \<noteq> []"
    by (simp add: demo_state_def str_or_def)
  have h3: "length (history demo_state) = 1"
    by (simp add: demo_state_def)
  from format_output_history_not_rolled_back [OF h1 h2, of "''t1''" "''t2''"] h1 h2 h3
  show ?thesis by simp
qed

section \<open>Properties of the image enrichment\<close>

lemma enrich_citation_cases:
  "enrich_citation f c = c \<or> image_found f c (enrich_citation f c)"
  by (auto simp: enrich_citation_def image_found_def truthy_str_def
      split: outcome.splits option.splits)

lemma image_found_iff:
  "image_found f c c' \<longleftrightarrow>
     (\<exists>u. u \<noteq> [] \<and> f (c_title c) (c_url c) = Returns (Some u) \<and> c' = c\<lparr>c_image := Some u\<rparr>)"
  by (auto simp: image_found_def split: outcome.splits option.splits)

lemma image_found_again:
  assumes "image_found f c c'"
  shows "image_found f c (enrich_citation f c')"
proof -
  from assms obtain u where u: "u \<noteq> []" "f (c_title c) (c_url c) = Returns (Some u)"
    "c' = c\<lparr>c_image := Some u\<rparr>"
    by (auto simp: image_found_iff)
  then show ?thesis
    by (auto simp: enrich_citation_def image_found_iff truthy_str_def)
qed

lemma enrich_all_Cons:
  "enrich_all f (j # idxs) cs = enrich_all f idxs (cs[j := enrich_citation f (cs ! j)])"
  by (simp add: enrich_all_def)

lemma enrich_all_length: "length (enrich_all f idxs cs) = length cs"
  by (induction idxs arbitrary: cs) (simp_all add: enrich_all_Cons, simp add: enrich_all_def)

lemma enrich_all_nth:
  assumes "i < length cs" "c0 = cs ! i \<or> image_found f c0 (cs ! i)"
  shows "(i \<notin> set idxs \<longrightarrow> enrich_all f idxs cs ! i = cs ! i)
         \<and> (enrich_all f idxs cs ! i = c0 \<or> image_found f c0 (enrich_all f idxs cs ! i))"
  using assms
proof (induction idxs arbitrary: cs)
  case Nil
  then show ?case by (auto simp: enrich_all_def)
next
  case (Cons j idxs)
  let ?cs = "cs[j := enrich_citation f (cs ! j)]"
  have len: "i < length ?cs"
    using Cons.prems by simp
  have rel: "c0 = ?cs ! i \<or> image_found f c0 (?cs ! i)"
  proof (cases "i = j")
    case True
    then have "?cs ! i = enrich_citation f (cs ! i)"
      using Cons.prems by simp
    then show ?thesis
      using Cons.prems(2) enrich_citation_cases [of f "cs ! i"] image_found_again [of f c0 "cs ! i"]
      by auto
  next
    case False
    then show ?thesis
      using Cons.prems by simp
  qed
  from Cons.IH [OF len rel] show ?case
    using Cons.prems by (auto simp: enrich_all_Cons)
qed

lemma citations_to_enrich_set:
  "i \<in> set (citations_to_enrich cs) \<longleftrightarrow> i < length cs \<and> \<not> has_image (cs ! i)"
  by (auto simp: citations_to_enrich_def)

lemma enrich_citations_citations:
  assumes "citations st = Some cs"
  shows "\<exists>cs'. citations (fst (snd (enrich_citations f st calls))) = Some cs'
           \<and> length cs' = length cs
           \<and> (\<forall>i<length cs.
                (has_image (cs ! i) \<longrightarrow> cs' ! i = cs ! i)
                \<and> (cs' ! i = cs ! i \<or> image_found f (cs ! i) (cs' ! i)))"
proof (cases "cs = [] \<or> citations_to_enrich cs = []")
  case True
  then show ?thesis
    using assms by (auto simp: enrich_citations_def list_or_empty_def Let_def)
next
  case False
  then have c: "citations (fst (snd (enrich_citations f st calls)))
              = Some (enrich_all f (citations_to_enrich cs) cs)"
    using assms by (simp add: enrich_citations_def list_or_empty_def Let_def)
  show ?thesis
    unfolding c
    using enrich_all_nth [of _ cs _ f "citations_to_enrich cs"]
    by (auto simp: enrich_all_length citations_to_enrich_set)
qed

lemma enrich_citations_None:
  "citations st = None \<Longrightarrow> citations (fst (snd (enrich_citations f st calls))) = None"
  by (simp add: enrich_citations_def list_or_empty_def Let_def)

text \<open>
  Claim C7. When the API key or the zone of the image provider is missing, the enrichment
  stage returns the state it was given, raises nothing and calls neither helper.
\<close>

theorem enrich_images_no_credentials:
  assumes "\<not> truthy_str (opt_or (BRIGHT_DATA_API_KEY cfg) (SERPAPI_API_KEY cfg))
           \<or> \<not> truthy_str (SERP_ZONE cfg)"
  shows "enrich_images cfg search_overview search_citation st = (None, st, [])"
  using assms by (auto simp: enrich_images_def Let_def)

theorem enrich_images_no_credentials_witness:
  "\<not> truthy_str (opt_or (BRIGHT_DATA_API_KEY no_credentials) (SERPAPI_API_KEY no_credentials))
   \<and> \<not> truthy_str (SERP_ZONE no_credentials)
   \<and> enrich_images no_credentials (\<lambda>q. Returns (Some ''http://img.example/o.png''))
        (\<lambda>t u. Returns (Some ''http://img.example/b.png'')) demo_cited
      = (None, demo_cited, [])"
proof -
  have k: "\<not> truthy_str (opt_or (BRIGHT_DATA_API_KEY no_credentials) (SERPAPI_API_KEY no_credentials))"
    by (simp add: no_credentials_def truthy_str_def opt_or_def)
  have z: "\<not> truthy_str (SERP_ZONE no_credentials)"
    by (simp add: no_credentials_def truthy_str_def)
  from k have h: "\<not> truthy_str (opt_or (BRIGHT_DATA_API_KEY no_credentials) (SERPAPI_API_KEY no_credentials))
     \<or> \<not> truthy_str (SERP_ZONE no_credentials)"
    by simp
  from enrich_images_no_credentials [OF h] k z show ?thesis
    by blast
qed

lemma enrich_images_citations_cases:
  "citations (fst (snd (enrich_images cfg so sc st))) = citations st
   \<or> (\<exists>st' calls. citations st' = citations st
         \<and> citations (fst (snd (enrich_images cfg so sc st)))
           = citations (fst (snd (enrich_citations sc st' calls))))"
proof -
  have a: "citations (st\<lparr>overview_image := img\<rparr>) = citations st" for img
    by simp
  show ?thesis
    unfolding enrich_images_def Let_def
    by (auto split: outcome.splits intro: a)
qed

text \<open>
  Claim C9. The enrichment stage keeps the list of citations at its length; a citation
  that had a non-blank image is unchanged; every other citation is unchanged or is the
  same citation with the non-empty image URL that its search returned; and no image is
  set back to null.
\<close>

theorem enrich_images_keeps_images:
  assumes "citations st = Some cs"
  shows "\<exists>cs'. citations (fst (snd (enrich_images cfg search_overview search_citation st))) = Some cs'
           \<and> length cs' = length cs
           \<and> (\<forall>i<length cs.
                (has_image (cs ! i) \<longrightarrow> cs' ! i = cs ! i)
                \<and> (cs' ! i = cs ! i \<or> image_found search_citation (cs ! i) (cs' ! i))
                \<and> (c_image (cs ! i) \<noteq> None \<longrightarrow> c_image (cs' ! i) \<noteq> None))"
proof -
  let ?res = "citations (fst (snd (enrich_images cfg search_overview search_citation st)))"
  have keep: "c_image c \<noteq> None \<longrightarrow> c_image c' \<noteq> None"
    if "c' = c \<or> image_found search_citation c c'" for c c'
    using that by (auto simp: image_found_iff)
  from enrich_images_citations_cases [of cfg search_overview search_citation st]
  consider "?res = citations st"
    | st' calls where "citations st' = citations st"
        "?res = citations (fst (snd (enrich_citations search_citation st' calls)))"
    by blast
  then show ?thesis
  proof cases
    case 1
    then show ?thesis using assms by simp
  next
    case 2
    with assms have "citations st' = Some cs" by simp
    from enrich_citations_citations [OF this, of search_citation calls]
    obtain cs' where cs': "citations (fst (snd (enrich_citations search_citation st' calls))) = Some cs'"
      "length cs' = length cs"
      "\<forall>i<length cs. (has_image (cs ! i) \<longrightarrow> cs' ! i = cs ! i)
          \<and> (cs' ! i = cs ! i \<or> image_found search_citation (cs ! i) (cs' ! i))"
      by blast
    have "c_image (cs ! i) \<noteq> None \<longrightarrow> c_image (cs' ! i) \<noteq> None" if "i < length cs" for i
      using cs'(3) that keep [of "cs' ! i" "cs ! i"] by blast
    with 2(2) cs' show ?thesis
      by (intro exI [of _ cs']) simp
  qed
qed

theorem enrich_images_keeps_images_witness:
  "citations demo_cited = Some [demo_citation\<lparr>c_image := Some ''http://img.example/a.png''\<rparr>,
                                demo_citation\<lparr>c_id := 2\<rparr>]
   \<and> has_image (demo_citation\<lparr>c_image := Some ''http://img.example/a.png''\<rparr>)
   \<and> (\<exists>cs'. citations (fst (snd (enrich_images all_credentials (\<lambda>q. Returns None)
                 (\<lambda>t u. Returns (Some ''http://img.example/b.png'')) demo_cited))) = Some cs'
          \<and> length cs' = 2
          \<and> cs' ! 0 = demo_citation\<lparr>c_image := Some ''http://img.example/a.png''\<rparr>)"
proof -
  let ?c0 = "demo_citation\<lparr>c_image := Some ''http://img.example/a.png''\<rparr>"
  have h: "citations demo_cited = Some [?c0, demo_citation\<lparr>c_id := 2\<rparr>]"
    by (simp add: demo_cited_def)
  have i: "has_image ?c0"
    by (simp add: has_image_def py_strip_def py_lstrip_def py_rstrip_def py_isspace_def)
  from enrich_images_keeps_images [OF h, of all_credentials "\<lambda>q. Returns None"
      "\<lambda>t u. Returns (Some ''http://img.example/b.png'')"]
  obtain cs' where cs': "citations (fst (snd (enrich_images all_credentials (\<lambda>q. Returns None)
                 (\<lambda>t u. Returns (Some ''http://img.example/b.png'')) demo_cited))) = Some cs'"
    "length cs' = length [?c0, demo_citation\<lparr>c_id := 2\<rparr>]"
    "\<forall>i<length [?c0, demo_citation\<lparr>c_id := 2\<rparr>].
        (has_image ([?c0, demo_citation\<lparr>c_id := 2\<rparr>] ! i) \<longrightarrow> cs' ! i = [?c0, demo_citation\<lparr>c_id := 2\<rparr>] ! i)"
    by blast
  from cs'(3) i have "cs' ! 0 = ?c0"
    by auto
  with h i cs'(1,2) show ?thesis
    by auto
qed

section \<open>Properties of the synthesis\<close>

lemma collect_citations_foldl:
  "foldl (\<lambda>acc c. case build_citation f rs c of None \<Rightarrow> acc | Some citation \<Rightarrow> acc @ [citation])
     acc cits = acc @ List.map_filter (build_citation f rs) cits"
  by (induction cits arbitrary: acc) (auto simp: List.map_filter_simps split: option.splits)

lemma collect_citations_map_filter:
  "collect_citations f rs cits = List.map_filter (build_citation f rs) cits"
  by (simp add: collect_citations_def collect_citations_foldl)

lemma map_filter_subseq:
  "\<exists>sub. subseq sub xs \<and> map g sub = map Some (List.map_filter g xs)"
proof (induction xs)
  case Nil
  show ?case by (simp add: List.map_filter_simps)
next
  case (Cons x xs)
  then obtain sub where sub: "subseq sub xs" "map g sub = map Some (List.map_filter g xs)"
    by blast
  show ?case
  proof (cases "g x")
    case None
    with sub show ?thesis
      by (intro exI [of _ sub]) (auto simp: List.map_filter_simps)
  next
    case (Some y)
    with sub show ?thesis
      by (intro exI [of _ "x # sub"]) (simp add: List.map_filter_simps)
  qed
qed

lemma take_subseq_map:
  assumes "subseq sub xs" "map g sub = map Some ys"
  shows "\<exists>sub'. subseq sub' xs \<and> map g sub' = map Some (take n ys)"
proof -
  have "subseq (take n sub) sub"
    by (metis append_take_drop_id prefixI prefix_imp_subseq)
  with assms(1) have "subseq (take n sub) xs"
    by (rule subseq_order.trans [rotated])
  moreover have "map g (take n sub) = map Some (take n ys)"
    using assms(2) by (simp add: take_map [symmetric])
  ultimately show ?thesis by blast
qed

lemma map_filter_append:
  "List.map_filter g (xs @ ys) = List.map_filter g xs @ List.map_filter g ys"
  by (simp add: List.map_filter_def)

lemma collect_citations_append:
  "collect_citations f rs (xs @ c # ys) =
     collect_citations f rs xs @ (case build_citation f rs c of None \<Rightarrow> [] | Some x \<Rightarrow> [x])
       @ collect_citations f rs ys"
  by (simp add: collect_citations_map_filter map_filter_append List.map_filter_simps
      split: option.splits)

lemma py_int_coerced:
  "coerced_id f v = Some n \<Longrightarrow> py_int f v = Inr n"
  by (cases v) (auto simp: coerced_id_def truncate_rat_def)

lemma py_int_not_coerced:
  "coerced_id f v = None \<Longrightarrow> isl (py_int f v)"
  by (cases v) (auto simp: coerced_id_def)

lemma find_rev_filter:
  "find P (rev xs) = (case filter P xs of [] \<Rightarrow> None | y # ys \<Rightarrow> Some (last (y # ys)))"
proof (induction xs rule: rev_induct)
  case Nil
  show ?case by simp
next
  case (snoc x xs)
  show ?case
  proof (cases "P x")
    case True
    have "last (y # ys) = x" if "filter P xs @ [x] = y # ys" for y ys
      using that by (metis last_snoc)
    with True show ?thesis
      by (auto split: list.splits)
  next
    case False
    with snoc show ?thesis by simp
  qed
qed

lemma url_to_result_snippet:
  "(case url_to_result rs u of None \<Rightarrow> None | Some r \<Rightarrow> sr_extended_snippet r) = snippet_for rs u"
  by (simp add: url_to_result_def snippet_for_def find_rev_filter split: list.splits)

lemma text_field_get:
  assumes "case map_of d k of None \<Rightarrow> True | Some (JStr t) \<Rightarrow> True | Some _ \<Rightarrow> False"
  shows "dict_get_default d k (JStr []) = JStr (text_field d k)"
  using assms by (auto simp: dict_get_default_def text_field_def split: option.splits json.splits)

lemma malformed_dropped:
  "malformed_citation f c \<Longrightarrow> build_citation f rs c = None"
proof (cases c)
  case (JObj d)
  assume m: "malformed_citation f c"
  show ?thesis
  proof (cases "map_of d ''id''")
    case None
    with JObj show ?thesis
      by (simp add: build_citation_def dict_get_def)
  next
    case (Some v)
    with m JObj have "v = JNull \<or> coerced_id f v = None"
      by (simp add: malformed_citation_def)
    then have "v = JNull \<or> isl (py_int f v)"
      using py_int_not_coerced by blast
    with JObj Some show ?thesis
      by (auto simp: build_citation_def dict_get_def Let_def split: json.splits sum.splits)
  qed
qed (simp_all add: build_citation_def)

lemma mistyped_dropped:
  "mistyped_citation c \<Longrightarrow> build_citation f rs c = None"
  by (cases c)
    (auto simp: mistyped_citation_def build_citation_def dict_get_default_def Let_def
      split: option.splits json.splits sum.splits)

lemma well_formed_built:
  assumes "map_of d ''id'' = Some v" and "v \<noteq> JNull" and "coerced_id f v = Some n"
    and "\<not> mistyped_citation (JObj d)"
  shows "build_citation f rs (JObj d) = Some (citation_of rs n d)"
proof -
  from assms(4)
  have t: "case map_of d ''title'' of None \<Rightarrow> True | Some (JStr t) \<Rightarrow> True | Some _ \<Rightarrow> False"
    and u: "case map_of d ''url'' of None \<Rightarrow> True | Some (JStr t) \<Rightarrow> True | Some _ \<Rightarrow> False"
    by (auto simp: mistyped_citation_def split: option.splits json.splits)
  have gt: "dict_get_default d ''title'' (JStr []) = JStr (text_field d ''title'')"
    using t by (rule text_field_get)
  have gu: "dict_get_default d ''url'' (JStr []) = JStr (text_field d ''url'')"
    using u by (rule text_field_get)
  have id: "dict_get d ''id'' = v"
    using assms(1) by (simp add: dict_get_def)
  have pi: "py_int f v = Inr n"
    using assms(3) by (rule py_int_coerced)
  show ?thesis
    using assms(2)
    by (simp add: build_citation_def Let_def id gt gu pi citation_of_def url_to_result_snippet)
qed

lemma citation_classes:
  "malformed_citation f c \<or> mistyped_citation c
   \<or> (\<exists>d v n. c = JObj d \<and> map_of d ''id'' = Some v \<and> v \<noteq> JNull \<and> coerced_id f v = Some n)"
  by (cases c) (auto simp: malformed_citation_def split: option.splits)

lemma synthesize_parsed:
  assumes "truthy_str (OPENAI_API_KEY cfg)" "take 5 (list_or_empty (results st)) \<noteq> []"
  shows "citations (synthesized_state (synthesize cfg f so (LlmJson (JObj data)) st)) =
           Some (take 5 (collect_citations f (list_or_empty (results st)) (proposed_citations data)))"
  using assms
  by (simp add: synthesize_def Let_def store_overview_def split: json.splits)

lemma synthesize_at_most_five:
  "\<exists>cs. citations (synthesized_state (synthesize cfg f so reply st)) = Some cs \<and> length cs \<le> 5"
  by (auto simp: synthesize_def Let_def empty_synthesis_def store_overview_def
      split: llm_reply.splits json.splits)

text \<open>
  Claim C6. The citation list of the synthesis stage never has more than five entries. On
  a parsed answer it is the first five of the citations collected from the proposed
  entries, in the order in which the LLM proposed them. An entry that is not an object,
  has no \<open>id\<close> (or a null one) or has an \<open>id\<close> that cannot be coerced to an integer is
  dropped, and so is one whose title or URL is not a string; dropping it changes nothing
  else. Every other entry survives as the citation with its coerced \<open>id\<close>, its title and
  its URL, between the citations of the entries before it and those of the entries after
  it.
\<close>

theorem synthesize_citations:
  "(\<exists>cs. citations (synthesized_state (synthesize cfg f so reply st)) = Some cs \<and> length cs \<le> 5)
   \<and> (truthy_str (OPENAI_API_KEY cfg) \<and> take 5 (list_or_empty (results st)) \<noteq> [] \<longrightarrow>
        citations (synthesized_state (synthesize cfg f so (LlmJson (JObj data)) st)) =
          Some (take 5 (collect_citations f (list_or_empty (results st)) (proposed_citations data)))
        \<and> (\<exists>sub. subseq sub (proposed_citations data)
              \<and> map (build_citation f (list_or_empty (results st))) sub =
                  map Some (take 5 (collect_citations f (list_or_empty (results st))
                                      (proposed_citations data)))))
   \<and> (malformed_citation f c \<or> mistyped_citation c \<longrightarrow>
        build_citation f rs c = None
        \<and> collect_citations f rs (xs @ c # ys) = collect_citations f rs xs @ collect_citations f rs ys
        \<and> collect_citations f rs (xs @ c # ys) = collect_citations f rs (xs @ ys))
   \<and> (map_of d ''id'' = Some v \<and> v \<noteq> JNull \<and> coerced_id f v = Some n
        \<and> \<not> mistyped_citation (JObj d) \<longrightarrow>
        build_citation f rs (JObj d) = Some (citation_of rs n d)
        \<and> collect_citations f rs (xs @ JObj d # ys) =
            collect_citations f rs xs @ citation_of rs n d # collect_citations f rs ys)
   \<and> (malformed_citation f c \<or> mistyped_citation c
        \<or> (\<exists>d v n. c = JObj d \<and> map_of d ''id'' = Some v \<and> v \<noteq> JNull
              \<and> coerced_id f v = Some n))"
proof (intro conjI impI)
  show "\<exists>cs. citations (synthesized_state (synthesize cfg f so reply st)) = Some cs \<and> length cs \<le> 5"
    by (rule synthesize_at_most_five)
next
  assume a: "truthy_str (OPENAI_API_KEY cfg) \<and> take 5 (list_or_empty (results st)) \<noteq> []"
  then show "citations (synthesized_state (synthesize cfg f so (LlmJson (JObj data)) st)) =
          Some (take 5 (collect_citations f (list_or_empty (results st)) (proposed_citations data)))"
    by (simp add: synthesize_parsed)
  from map_filter_subseq [of "proposed_citations data" "build_citation f (list_or_empty (results st))"]
  obtain sub where "subseq sub (proposed_citations data)"
    "map (build_citation f (list_or_empty (results st))) sub =
       map Some (collect_citations f (list_or_empty (results st)) (proposed_citations data))"
    by (auto simp: collect_citations_map_filter)
  then show "\<exists>sub. subseq sub (proposed_citations data)
              \<and> map (build_citation f (list_or_empty (results st))) sub =
                  map Some (take 5 (collect_citations f (list_or_empty (results st))
                                      (proposed_citations data)))"
    by (rule take_subseq_map)
next
  assume "malformed_citation f c \<or> mistyped_citation c"
  then show none: "build_citation f rs c = None"
    using malformed_dropped mistyped_dropped by blast
  then show "collect_citations f rs (xs @ c # ys) = collect_citations f rs xs @ collect_citations f rs ys"
    by (simp add: collect_citations_append)
  from none show "collect_citations f rs (xs @ c # ys) = collect_citations f rs (xs @ ys)"
    by (simp add: collect_citations_map_filter map_filter_append List.map_filter_simps)
next
  assume "map_of d ''id'' = Some v \<and> v \<noteq> JNull \<and> coerced_id f v = Some n
        \<and> \<not> mistyped_citation (JObj d)"
  then show some: "build_citation f rs (JObj d) = Some (citation_of rs n d)"
    by (simp add: well_formed_built)
  then show "collect_citations f rs (xs @ JObj d # ys) =
            collect_citations f rs xs @ citation_of rs n d # collect_citations f rs ys"
    by (simp add: collect_citations_append)
next
  show "malformed_citation f c \<or> mistyped_citation c
        \<or> (\<exists>d v n. c = JObj d \<and> map_of d ''id'' = Some v \<and> v \<noteq> JNull
              \<and> coerced_id f v = Some n)"
    by (rule citation_classes)
qed

theorem synthesize_citations_witness:
  "truthy_str (OPENAI_API_KEY all_credentials)
   \<and> take 5 (list_or_empty (results demo_searched)) \<noteq> []
   \<and> malformed_citation demo_int (JStr ''three'')
   \<and> coerced_id demo_int (JStr ''7'') = Some 7
   \<and> \<not> mistyped_citation (JObj [(''id'', JStr ''7''), (''title'', JStr ''D''),
                                   (''url'', JStr ''http://d.example/'')])
   \<and> build_citation demo_int [demo_result]
        (JObj [(''id'', JStr ''7''), (''title'', JStr ''D''), (''url'', JStr ''http://d.example/'')])
       = Some \<lparr>c_id = 7, c_title = ''D'', c_url = ''http://d.example/'', c_image = None,
               c_extended_snippet = None\<rparr>
   \<and> map_option (map (\<lambda>c. (c_id c, c_title c, c_url c)))
        (citations (synthesized_state
           (synthesize all_credentials demo_int (\<lambda>j. []) (LlmJson (JObj demo_answer))
              demo_searched)))
       = Some [(1, ''A'', ''http://a.example/x''), (7, ''D'', ''http://d.example/''),
               (2, ''E'', []), (1, [], ''http://f.example/''), (8, ''H'', ''http://h.example/'')]"
proof -
  let ?d = "[(''id'', JStr ''7''), (''title'', JStr ''D''), (''url'', JStr ''http://d.example/'')]"
  have h1: "truthy_str (OPENAI_API_KEY all_credentials)"
    by (simp add: all_credentials_def truthy_str_def)
  have h2: "take 5 (list_or_empty (results demo_searched)) \<noteq> []"
    by (simp add: demo_searched_def list_or_empty_def)
  have h3: "malformed_citation demo_int (JStr ''three'')"
    by (simp add: malformed_citation_def)
  have h4: "map_of ?d ''id'' = Some (JStr ''7'')" "JStr ''7'' \<noteq> JNull"
    "coerced_id demo_int (JStr ''7'') = Some 7"
    by (simp_all add: coerced_id_def demo_int_def)
  have h5: "\<not> mistyped_citation (JObj ?d)"
    by (simp add: mistyped_citation_def)
  have c: "citation_of [demo_result] 7 ?d =
      \<lparr>c_id = 7, c_title = ''D'', c_url = ''http://d.example/'', c_image = None,
       c_extended_snippet = None\<rparr>"
    by (simp add: citation_of_def text_field_def snippet_for_def demo_result_def)
  have v: "map (\<lambda>c. (c_id c, c_title c, c_url c))
             (take 5 (collect_citations demo_int (list_or_empty (results demo_searched))
                        (proposed_citations demo_answer)))
           = [(1, ''A'', ''http://a.example/x''), (7, ''D'', ''http://d.example/''),
              (2, ''E'', []), (1, [], ''http://f.example/''), (8, ''H'', ''http://h.example/'')]"
    by code_simp
  note t = synthesize_citations [of all_credentials demo_int "\<lambda>j. []" LlmEmpty demo_searched
      demo_answer "JStr ''three''" "[demo_result]" "[]" "[]" ?d "JStr ''7''" 7]
  from t h1 h2
  have "citations (synthesized_state
           (synthesize all_credentials demo_int (\<lambda>j. []) (LlmJson (JObj demo_answer)) demo_searched))
        = Some (take 5 (collect_citations demo_int (list_or_empty (results demo_searched))
                          (proposed_citations demo_answer)))"
    by blast
  with v have r: "map_option (map (\<lambda>c. (c_id c, c_title c, c_url c)))
        (citations (synthesized_state
           (synthesize all_credentials demo_int (\<lambda>j. []) (LlmJson (JObj demo_answer))
              demo_searched)))
       = Some [(1, ''A'', ''http://a.example/x''), (7, ''D'', ''http://d.example/''),
               (2, ''E'', []), (1, [], ''http://f.example/''), (8, ''H'', ''http://h.example/'')]"
    by simp
  from t h4 h5 have "build_citation demo_int [demo_result] (JObj ?d) = Some (citation_of [demo_result] 7 ?d)"
    by blast
  with c have b: "build_citation demo_int [demo_result] (JObj ?d) =
      Some \<lparr>c_id = 7, c_title = ''D'', c_url = ''http://d.example/'', c_image = None,
            c_extended_snippet = None\<rparr>"
    by simp
  from h1 h2 h3 h4(3) h5 b r show ?thesis
    by blast
qed

section \<open>Properties of the ranking\<close>

lemma fallback_raises:
  "fallback cfg rs st = Inl ValueError"
  by (simp add: fallback_def set_ranked_results_def)

lemma ranking_block_raises:
  "\<exists>e. ranking_block cfg float_raises reply rs st = Inl e"
  by (auto simp: ranking_block_def fallback_raises split: llm_reply.splits sum.splits option.splits)

lemma prioritize_sources_raises:
  "prioritize_sources cfg float_raises reply st = Inl ValueError"
proof -
  obtain e where "ranking_block cfg float_raises reply (list_or_empty (results st)) st = Inl e"
    using ranking_block_raises by blast
  then show ?thesis
    by (simp add: prioritize_sources_def Let_def fallback_raises set_ranked_results_def)
qed

lemma first_pass_resolved:
  assumes "dict_get d ''url'' = JStr u" and "u \<noteq> []" and "dict_get d ''rank'' = JInt n"
    and "first_match u rs = Some i"
  shows "first_pass float_raises (JObj d # entries) rs =
           Some (if float_raises n then OverflowError else ValueError)"
  using assms by (simp add: first_pass_step_def Let_def set_reputability_score_def)

text \<open>
  Claim C2 does not hold of \<open>prioritize_sources\<close>. On the scenario of the specification,
  three results and a ranking that gives rank 1 to the first and rank 2 to the second, the
  first entry is resolved to the first result and the first pass ends there with an
  exception: the assignment of the score to a result is refused, since \<open>SearchResult\<close>
  declares no \<open>reputability_score\<close>. The handler then assigns to \<open>state.ranked_results\<close>,
  which \<open>AgentState\<close> does not declare, and the stage raises \<open>ValueError\<close>: no result is
  scored and no ranked list is stored.
\<close>

theorem prioritize_sources_ranking_raises:
  "first_match ''https://a.example/x'' three_results = Some 0
   \<and> first_pass float_raises two_ranked three_results =
       Some (if float_raises 1 then OverflowError else ValueError)
   \<and> prioritize_sources all_credentials float_raises (LlmJson (JList two_ranked)) three_searched
       = Inl ValueError"
proof -
  have m: "first_match ''https://a.example/x'' three_results = Some 0"
    by code_simp
  have "first_pass float_raises
          (JObj [(''url'', JStr ''https://a.example/x''), (''rank'', JInt 1)]
             # [rank_entry ''https://b.example/y'' (JInt 2)]) three_results =
        Some (if float_raises 1 then OverflowError else ValueError)"
    using m by (intro first_pass_resolved) (simp_all add: dict_get_def)
  then have "first_pass float_raises two_ranked three_results =
       Some (if float_raises 1 then OverflowError else ValueError)"
    by (simp add: two_ranked_def rank_entry_def)
  with m show ?thesis
    by (simp add: prioritize_sources_raises)
qed

text \<open>
  Claim C3 does not hold of \<open>prioritize_sources\<close>. For a state with results, without the
  LLM credential, or with it when the call to the LLM fails, its answer is empty or is not
  JSON, or no entry of the ranking matches a result, the stage does not store the first
  results: the assignment to \<open>state.ranked_results\<close> is refused, since \<open>AgentState\<close>
  declares no such field, and the stage raises \<open>ValueError\<close>.
\<close>

theorem prioritize_sources_fallback_raises:
  "prioritize_sources no_credentials float_raises reply three_searched = Inl ValueError
   \<and> prioritize_sources all_credentials float_raises (LlmRaises e) three_searched = Inl ValueError
   \<and> prioritize_sources all_credentials float_raises LlmEmpty three_searched = Inl ValueError
   \<and> prioritize_sources all_credentials float_raises LlmNotJson three_searched = Inl ValueError
   \<and> first_pass float_raises [rank_entry ''https://d.example/'' (JInt 1)] three_results = None
   \<and> prioritize_sources all_credentials float_raises
        (LlmJson (JList [rank_entry ''https://d.example/'' (JInt 1)])) three_searched
       = Inl ValueError"
proof -
  have "first_match ''https://d.example/'' three_results = None"
    by code_simp
  then have "first_pass float_raises [rank_entry ''https://d.example/'' (JInt 1)] three_results = None"
    by (simp add: rank_entry_def first_pass_step_def Let_def dict_get_def)
  then show ?thesis
    by (simp add: prioritize_sources_raises)
qed

section \<open>Properties of the search\<close>

lemma html_not_json:
  "json_loads parse ''<html>Bad Gateway</html>'' = None"
proof -
  have "dropWhile json_blank ''<html>Bad Gateway</html>'' = ''<html>Bad Gateway</html>''"
    by code_simp
  moreover have "\<not> json_start (CHR ''<'')"
    by code_simp
  ultimately show ?thesis
    by (simp add: json_loads_def)
qed

lemma search_html_body:
  "search all_credentials (Returns html_body) parse extract st = Inl JSONDecodeError"
proof -
  have "truthy_str (opt_or (BRIGHT_DATA_API_KEY all_credentials) (SERPAPI_API_KEY all_credentials))"
    "truthy_str (SERP_ZONE all_credentials)"
    by (simp_all add: all_credentials_def truthy_str_def opt_or_def)
  moreover have "dict_get_default [(''status_code'', JInt 502),
      (''body'', JStr ''<html>Bad Gateway</html>'')] ''body'' (JObj []) = JStr ''<html>Bad Gateway</html>''"
    by (simp add: dict_get_default_def)
  ultimately show ?thesis
    by (simp add: search_def Let_def html_body_def html_not_json search_handler_def)
qed

text \<open>
  Claim C1 does not hold of \<open>search\<close>. With the credentials of the provider configured
  and a response whose \<open>body\<close> is a text that is not JSON, \<open>json.loads\<close> raises
  \<open>JSONDecodeError\<close>, which is no \<open>RequestException\<close>: the exception leaves the stage
  and the pipeline, whatever the query and the other providers do, and no final payload is
  produced.
\<close>

theorem search_propagates_json_decode_error:
  "search all_credentials (Returns html_body) parse extract (incoming q) = Inl JSONDecodeError
   \<and> pipeline all_credentials (env\<lparr>serp_response := Returns html_body\<rparr>) (incoming q)
       = Inl JSONDecodeError"
  by (simp add: pipeline_def search_html_body)

end
